theory Spec2Isabelle
  imports Complex_Main "HOL-Library.Word"
begin

section \<open>Voice recorder: scheduler form, recorder and recording service\<close>

text \<open>
  A shallow embedding of \<^verbatim>\<open>app/main.py\<close> (the scheduling form),
  \<^verbatim>\<open>app/audio_utils.py\<close> (the recorder and its backends) and
  \<^verbatim>\<open>services/recording_service.py\<close> (the background service).
  Mutable objects are records passed through the functions; what the operating system,
  the clock, the microphone and the other thread do is an explicit input.
\<close>

subsection \<open>Python values used by the form\<close>

datatype py_error = ValueError | OverflowError | StructError

text \<open>
  \<^verbatim>\<open>int(text)\<close> on a string: surrounding white space is dropped, one sign is
  allowed, then decimal digits, where single underscores may separate digits. Anything
  else raises \<^verbatim>\<open>ValueError\<close> (\<open>None\<close> here). Only ASCII digits and ASCII white
  space are represented.
\<close>

definition is_space :: "char \<Rightarrow> bool" where
  "is_space c = (c \<in> set [CHR '' '', CHR 0x09, CHR 0x0A, CHR 0x0B, CHR 0x0C, CHR 0x0D,
                          CHR 0x1C, CHR 0x1D, CHR 0x1E, CHR 0x1F])"

definition strip :: "string \<Rightarrow> string" where
  "strip s = rev (dropWhile is_space (rev (dropWhile is_space s)))"

definition digit_val :: "char \<Rightarrow> nat option" where
  "digit_val c = (if c \<in> set ''0123456789'' then Some (of_char c - 48) else None)"

fun parse_digits :: "nat \<Rightarrow> bool \<Rightarrow> string \<Rightarrow> nat option" where
  "parse_digits acc after_digit [] = (if after_digit then Some acc else None)"
| "parse_digits acc after_digit (c # cs) =
     (if c = CHR ''_'' then (if after_digit then parse_digits acc False cs else None)
      else (case digit_val c of
              None \<Rightarrow> None
            | Some d \<Rightarrow> parse_digits (10 * acc + d) True cs))"

definition py_int :: "string \<Rightarrow> int option" where
  "py_int s =
     (case strip s of
        [] \<Rightarrow> None
      | c # cs \<Rightarrow>
          if c = CHR ''-'' then map_option (\<lambda>n. - int n) (parse_digits 0 False cs)
          else if c = CHR ''+'' then map_option int (parse_digits 0 False cs)
          else map_option int (parse_digits 0 False (c # cs)))"

text \<open>\<^verbatim>\<open>str(n)\<close> and the format \<^verbatim>\<open>{n:02d}\<close> of an integer.\<close>

fun show_nat :: "nat \<Rightarrow> string" where
  "show_nat n =
     (if n < 10 then [''0123456789'' ! n]
      else show_nat (n div 10) @ [''0123456789'' ! (n mod 10)])"

definition py_str :: "int \<Rightarrow> string" where
  "py_str i = (if i < 0 then CHR ''-'' # show_nat (nat (- i)) else show_nat (nat i))"

definition zero_pad :: "nat \<Rightarrow> string \<Rightarrow> string" where
  "zero_pad w s = replicate (w - length s) CHR ''0'' @ s"

definition fmt_02d :: "int \<Rightarrow> string" where
  "fmt_02d i =
     (if i < 0 then CHR ''-'' # zero_pad 1 (show_nat (nat (- i)))
      else zero_pad 2 (show_nat (nat i)))"

subsection \<open>Naive local date and time\<close>

text \<open>
  A \<^verbatim>\<open>datetime.datetime\<close> without time zone: the calendar day as its proleptic
  Gregorian day number (\<^verbatim>\<open>toordinal()\<close>), and the time of day. The day number is not
  bounded here; the library's limit of the year 9999 is not represented. Comparison and
  \<^verbatim>\<open>timedelta\<close> arithmetic of naive values are those of the wall clock, with no
  daylight-saving shifts.
\<close>

record datetime =
  ordinal :: int
  hour :: int
  minute :: int
  second :: int
  microsecond :: int


text \<open>\<^verbatim>\<open>d.replace(hour=h, minute=m, second=s, microsecond=us)\<close>.\<close>

definition replace :: "datetime \<Rightarrow> int \<Rightarrow> int \<Rightarrow> int \<Rightarrow> int \<Rightarrow> py_error + datetime" where
  "replace d h m s us =
     (if 0 \<le> h \<and> h \<le> 23 \<and> 0 \<le> m \<and> m \<le> 59 \<and> 0 \<le> s \<and> s \<le> 59 \<and> 0 \<le> us \<and> us \<le> 999999
      then Inr (d\<lparr>hour := h, minute := m, second := s, microsecond := us\<rparr>)
      else Inl ValueError)"

text \<open>The position of a naive date and time on the wall-clock line, in microseconds.\<close>

definition to_micros :: "datetime \<Rightarrow> int" where
  "to_micros d =
     (((ordinal d * 24 + hour d) * 60 + minute d) * 60 + second d) * 1000000 + microsecond d"

definition dt_le :: "datetime \<Rightarrow> datetime \<Rightarrow> bool" where
  "dt_le a b =
     (ordinal a < ordinal b \<or> (ordinal a = ordinal b \<and>
       (hour a < hour b \<or> (hour a = hour b \<and>
         (minute a < minute b \<or> (minute a = minute b \<and>
           (second a < second b \<or> (second a = second b \<and>
             microsecond a \<le> microsecond b))))))))"


definition add_days :: "datetime \<Rightarrow> int \<Rightarrow> datetime" where
  "add_days d n = d\<lparr>ordinal := ordinal d + n\<rparr>"

text \<open>
  \<^verbatim>\<open>d.timestamp()\<close>, in seconds. The epoch and the host's offset from UTC are not
  represented: the value is the position on the wall-clock line.
\<close>

definition timestamp :: "datetime \<Rightarrow> real" where
  "timestamp d = real_of_int (to_micros d) / 1000000"

text \<open>The calendar date of a day number, as \<^verbatim>\<open>date.fromordinal\<close> computes it.\<close>

definition days_before_month :: "int \<Rightarrow> int" where
  "days_before_month m = [0, 31, 59, 90, 120, 151, 181, 212, 243, 273, 304, 334] ! nat (m - 1)"

definition days_in_month :: "int \<Rightarrow> int" where
  "days_in_month m = [31, 28, 31, 30, 31, 30, 31, 31, 30, 31, 30, 31] ! nat (m - 1)"

definition ord2ymd :: "int \<Rightarrow> int \<times> int \<times> int" where
  "ord2ymd n =
     (let n0 = n - 1;
          n400 = n0 div 146097; r400 = n0 mod 146097;
          n100 = r400 div 36524; r100 = r400 mod 36524;
          n4 = r100 div 1461; r4 = r100 mod 1461;
          n1 = r4 div 365; r1 = r4 mod 365;
          year = n400 * 400 + 1 + n100 * 100 + n4 * 4 + n1
      in if n1 = 4 \<or> n100 = 4 then (year - 1, 12, 31)
         else
           let leapyear = (n1 = 3 \<and> (n4 \<noteq> 24 \<or> n100 = 3));
               month = (r1 + 50) div 32;
               preceding = days_before_month month + (if month > 2 \<and> leapyear then 1 else 0)
           in if preceding > r1
              then let month' = month - 1;
                       preceding' = preceding -
                         (days_in_month month' + (if month' = 2 \<and> leapyear then 1 else 0))
                   in (year, month', r1 - preceding' + 1)
              else (year, month, r1 - preceding + 1))"

text \<open>\<^verbatim>\<open>d.strftime("%Y-%m-%d %H:%M")\<close>, the year written with four digits.\<close>

definition strftime_minute :: "datetime \<Rightarrow> string" where
  "strftime_minute d =
     (case ord2ymd (ordinal d) of
        (y, m, dd) \<Rightarrow>
          zero_pad 4 (py_str y) @ ''-'' @ fmt_02d m @ ''-'' @ fmt_02d dd @ '' '' @
          fmt_02d (hour d) @ '':'' @ fmt_02d (minute d))"

subsection \<open>The scheduling form (\<^verbatim>\<open>VoiceRecorderApp\<close>)\<close>

text \<open>
  The entry of the \<^verbatim>\<open>JsonStore\<close> under the key \<^verbatim>\<open>'recording'\<close>: a dictionary in
  which each of the keys this program writes is absent (\<open>None\<close>) or holds a value.
  \<^verbatim>\<open>store.put(key, **values)\<close> replaces the whole entry by the given values.
\<close>

record settings =
  s_hour :: "int option"
  s_minute :: "int option"
  s_duration :: "int option"
  s_scheduled_timestamp :: "real option"
  s_is_scheduled :: "bool option"

text \<open>
  The form: the store (\<open>None\<close> when the key \<^verbatim>\<open>'recording'\<close> does not exist), the
  texts of its widgets, and the alarm registered with the operating system (trigger time
  in milliseconds and the duration carried by the intent).
\<close>

record app =
  store :: "settings option"
  hour_spinner_text :: string
  minute_spinner_text :: string
  duration_input_text :: string
  status_label_text :: string
  schedule_btn_text :: string
  alarm :: "(int \<times> int) option"

text \<open>
  The host: whether \<^verbatim>\<open>platform == 'android'\<close>, and the exception (its message) that
  a call through the runtime bridge raises, if it raises.
\<close>

record host =
  on_android :: bool
  bridge_error :: "string option"

text \<open>\<^verbatim>\<open>int(x)\<close> on a number: truncation towards zero.\<close>

definition py_trunc :: "real \<Rightarrow> int" where
  "py_trunc x = (if 0 \<le> x then \<lfloor>x\<rfloor> else \<lceil>x\<rceil>)"

definition schedule_android_alarm :: "host \<Rightarrow> datetime \<Rightarrow> int \<Rightarrow> app \<Rightarrow> app" where
  "schedule_android_alarm h scheduled_time duration a =
     (if \<not> on_android h then a
      else (case bridge_error h of
              Some e \<Rightarrow> a\<lparr>status_label_text := ''Error scheduling: '' @ e\<rparr>
            | None \<Rightarrow> a\<lparr>alarm := Some (py_trunc (timestamp scheduled_time * 1000), duration)\<rparr>))"

definition cancel_android_alarm :: "host \<Rightarrow> app \<Rightarrow> app" where
  "cancel_android_alarm h a =
     (if \<not> on_android h then a
      else (case bridge_error h of
              Some e \<Rightarrow> a
            | None \<Rightarrow> a\<lparr>alarm := None\<rparr>))"

text \<open>
  Lines 162 to 167 of \<^verbatim>\<open>schedule_recording\<close>: today's \<open>hour:minute:00\<close>, moved to
  the next day when it is not after \<open>now\<close>.
\<close>

definition next_occurrence :: "datetime \<Rightarrow> int \<Rightarrow> int \<Rightarrow> py_error + datetime" where
  "next_occurrence now h m =
     (case replace now h m 0 0 of
        Inl e \<Rightarrow> Inl e
      | Inr scheduled_time \<Rightarrow>
          Inr (if dt_le scheduled_time now then add_days scheduled_time 1
               else scheduled_time))"


definition invalid_numbers :: "app \<Rightarrow> app" where
  "invalid_numbers a = a\<lparr>status_label_text := ''Error: Please enter valid numbers''\<rparr>"

text \<open>
  \<^verbatim>\<open>schedule_recording\<close>; \<open>now\<close> is what \<^verbatim>\<open>datetime.datetime.now()\<close> returns.
  The three \<^verbatim>\<open>int(...)\<close> calls and \<^verbatim>\<open>replace\<close> raise \<^verbatim>\<open>ValueError\<close>, which
  the handler at the end of the method catches.
\<close>

definition schedule_recording :: "host \<Rightarrow> datetime \<Rightarrow> app \<Rightarrow> app" where
  "schedule_recording h now a =
     (case py_int (hour_spinner_text a) of
        None \<Rightarrow> invalid_numbers a
      | Some hr \<Rightarrow>
     (case py_int (minute_spinner_text a) of
        None \<Rightarrow> invalid_numbers a
      | Some mn \<Rightarrow>
     (case py_int (duration_input_text a) of
        None \<Rightarrow> invalid_numbers a
      | Some duration \<Rightarrow>
          if duration \<le> 0
          then a\<lparr>status_label_text := ''Error: Duration must be positive''\<rparr>
          else (case next_occurrence now hr mn of
                  Inl e \<Rightarrow> invalid_numbers a
                | Inr scheduled_time \<Rightarrow>
                    let a1 = a\<lparr>store := Some \<lparr>s_hour = Some hr, s_minute = Some mn,
                                 s_duration = Some duration,
                                 s_scheduled_timestamp = Some (timestamp scheduled_time),
                                 s_is_scheduled = Some True\<rparr>\<rparr>;
                        a2 = (if on_android h
                              then schedule_android_alarm h scheduled_time duration a1
                              else a1)
                    in a2\<lparr>status_label_text :=
                            ''Recording scheduled for '' @ strftime_minute scheduled_time,
                          schedule_btn_text := ''Reschedule Recording''\<rparr>))))"

definition cancel_recording :: "host \<Rightarrow> app \<Rightarrow> app" where
  "cancel_recording h a =
     (let a1 = a\<lparr>store := Some \<lparr>s_hour = None, s_minute = None, s_duration = None,
                    s_scheduled_timestamp = None, s_is_scheduled = Some False\<rparr>\<rparr>;
          a2 = (if on_android h then cancel_android_alarm h a1 else a1)
      in a2\<lparr>status_label_text := ''Recording cancelled'',
            schedule_btn_text := ''Schedule Recording''\<rparr>)"

definition load_settings :: "app \<Rightarrow> app" where
  "load_settings a =
     (case store a of
        None \<Rightarrow> a
      | Some settings \<Rightarrow>
          let a1 = (case s_hour settings of
                      None \<Rightarrow> a
                    | Some v \<Rightarrow> a\<lparr>hour_spinner_text := fmt_02d v\<rparr>);
              a2 = (case s_minute settings of
                      None \<Rightarrow> a1
                    | Some v \<Rightarrow> a1\<lparr>minute_spinner_text := fmt_02d v\<rparr>)
          in (case s_duration settings of
                None \<Rightarrow> a2
              | Some v \<Rightarrow> a2\<lparr>duration_input_text := py_str v\<rparr>))"

subsection \<open>Audio files and the \<^verbatim>\<open>wave\<close> writer\<close>

type_synonym byte = "8 word"

text \<open>
  A WAV file on disk: the format fields of its header, the length of the data chunk that
  the header announces, and the sample bytes that follow the header.
\<close>

record wav_image =
  nchannels :: nat
  sampwidth :: nat
  framerate :: nat
  header_datalen :: nat
  frames_data :: "byte list"

text \<open>
  A file of the file system: created but still without header, a WAV file, a file in
  another container written by \<^verbatim>\<open>soundfile\<close> (named by its format), or a capture that
  the platform's audio bridge wrote in its own container.
\<close>

datatype disk_file = EmptyFile | WavFile wav_image | SoundFile string | BridgeCapture

text \<open>
  \<^verbatim>\<open>wave.Wave_write\<close> after \<^verbatim>\<open>setnchannels\<close>, \<^verbatim>\<open>setsampwidth\<close> and
  \<^verbatim>\<open>setframerate\<close>. The header is written with the first frames, announcing their
  length; \<^verbatim>\<open>writeframes\<close> patches the header after each write, and \<^verbatim>\<open>close\<close>
  writes or patches it once more.
\<close>

record wave_write =
  w_nchannels :: nat
  w_sampwidth :: nat
  w_framerate :: nat
  w_headerwritten :: bool
  w_datalength :: nat
  w_data :: "byte list"

definition wave_open :: "nat \<Rightarrow> nat \<Rightarrow> nat \<Rightarrow> wave_write" where
  "wave_open nch sw rate =
     \<lparr>w_nchannels = nch, w_sampwidth = sw, w_framerate = rate,
      w_headerwritten = False, w_datalength = 0, w_data = []\<rparr>"

definition ensure_header_written :: "nat \<Rightarrow> wave_write \<Rightarrow> wave_write" where
  "ensure_header_written datasize wr =
     (if w_headerwritten wr then wr
      else wr\<lparr>w_headerwritten := True,
              w_datalength := (datasize div (w_nchannels wr * w_sampwidth wr)) *
                              w_nchannels wr * w_sampwidth wr\<rparr>)"

definition patchheader :: "wave_write \<Rightarrow> wave_write" where
  "patchheader wr =
     (if length (w_data wr) = w_datalength wr then wr
      else wr\<lparr>w_datalength := length (w_data wr)\<rparr>)"

definition writeframes :: "wave_write \<Rightarrow> byte list \<Rightarrow> wave_write" where
  "writeframes wr data =
     (let wr1 = ensure_header_written (length data) wr;
          wr2 = wr1\<lparr>w_data := w_data wr1 @ data\<rparr>
      in patchheader wr2)"

definition image :: "wave_write \<Rightarrow> wav_image" where
  "image wr =
     \<lparr>nchannels = w_nchannels wr, sampwidth = w_sampwidth wr, framerate = w_framerate wr,
      header_datalen = w_datalength wr, frames_data = w_data wr\<rparr>"

definition wave_close :: "wave_write \<Rightarrow> wav_image" where
  "wave_close wr = image (patchheader (ensure_header_written 0 wr))"

text \<open>What is on disk while the writer is still open.\<close>

definition on_disk :: "wave_write \<Rightarrow> disk_file" where
  "on_disk wr = (if w_headerwritten wr then WavFile (image wr) else EmptyFile)"

text \<open>
  The header of a WAV file is finalized when it announces exactly the bytes that follow
  it; the playable length of the file is its number of frames over the rate.
\<close>

definition header_finalized :: "wav_image \<Rightarrow> bool" where
  "header_finalized f = (header_datalen f = length (frames_data f))"



text \<open>The output contract: mono, 16-bit samples, at the given rate.\<close>

definition pcm16_mono :: "nat \<Rightarrow> wav_image \<Rightarrow> bool" where
  "pcm16_mono rate f = (nchannels f = 1 \<and> sampwidth f = 2 \<and> framerate f = rate)"

text \<open>A 16-bit sample in little-endian order; \<^verbatim>\<open>struct.pack('<h', n)\<close>.\<close>

definition le16 :: "16 word \<Rightarrow> byte list" where
  "le16 x = [ucast x, ucast (drop_bit 8 x)]"

definition pack_h :: "int \<Rightarrow> py_error + byte list" where
  "pack_h n =
     (if - 32768 \<le> n \<and> n \<le> 32767 then Inr (le16 (word_of_int n)) else Inl StructError)"

subsection \<open>The recorder (\<^verbatim>\<open>AudioRecorder\<close>) and what surrounds it\<close>

datatype audio_lib = PyAudio | SoundDevice | Plyer

text \<open>
  The recorder object. The thread handle is represented by the arguments the thread was
  created with.
\<close>

record recorder =
  is_recording :: bool
  recording_thread :: "(string \<times> real option) option"
  audio_data :: "byte list list"

definition sample_rate :: nat where "sample_rate = 44100"
definition channels :: nat where "channels = 1"
definition chunk_size :: nat where "chunk_size = 1024"

text \<open>\<^verbatim>\<open>get_sample_size(paInt16)\<close>.\<close>

definition sample_size :: nat where "sample_size = 2"

text \<open>The recorder after \<^verbatim>\<open>__init__\<close>.\<close>

definition new_recorder :: recorder where
  "new_recorder = \<lparr>is_recording = False, recording_thread = None, audio_data = []\<rparr>"

text \<open>
  What lies outside the objects: the files by path, the worker threads started so far
  (by their arguments), and the path the audio bridge of \<^verbatim>\<open>plyer\<close> is set to
  (\<^verbatim>\<open>audio.file_path\<close>).
\<close>

record world =
  files :: "string \<rightharpoonup> disk_file"
  spawned :: "(string \<times> real option) list"
  bridge_path :: string

text \<open>
  One pass of a worker's loop as the outside determines it: whether
  \<^verbatim>\<open>stop_recording\<close> has cleared the flag from the other thread since the last test
  of the loop, what \<^verbatim>\<open>time.time()\<close> returns, and what \<^verbatim>\<open>stream.read\<close> delivers.
\<close>

datatype read_result = Frames "byte list" | ReadError

record tick =
  stop_called :: bool
  clock :: real
  rd :: read_result

text \<open>
  The inputs of one run of a worker: whether the input stream (or the capture) and the
  output file can be opened, the clock at the start, the passes of the loop, the clock when
  \<^verbatim>\<open>sounddevice\<close> saves, the samples in the capture buffer by index, whether the
  bridge's \<^verbatim>\<open>start\<close> and \<^verbatim>\<open>stop\<close> succeed, and the containers other than WAV that
  the installed \<^verbatim>\<open>soundfile\<close> writes (upper-case extensions).
\<close>

record env =
  stream_opens :: bool
  file_opens :: bool
  start_clock :: real
  ticks :: "tick list"
  end_clock :: real
  mic :: "nat \<Rightarrow> 16 word"
  bridge_starts :: bool
  bridge_stops :: bool
  sf_formats :: "string list"

text \<open>
  A loop that need not end is run on the finite list of passes it is given:
  \<open>Unfinished\<close> carries the state reached when the list is used up before the loop has
  left.
\<close>

datatype 'a run = Finished 'a | Unfinished 'a

definition start_recording ::
  "string \<Rightarrow> real option \<Rightarrow> recorder \<times> world \<Rightarrow> bool \<times> recorder \<times> world" where
  "start_recording filepath duration_seconds rw =
     (case rw of (r, w) \<Rightarrow>
        if is_recording r then (False, r, w)
        else (True,
              r\<lparr>is_recording := True, audio_data := [],
                recording_thread := Some (filepath, duration_seconds)\<rparr>,
              w\<lparr>spawned := spawned w @ [(filepath, duration_seconds)]\<rparr>))"


text \<open>
  The other thread's effect on the flag before a test of the loop, and the test
  \<^verbatim>\<open>duration_seconds and (time.time() - start_time) >= duration_seconds\<close>.
\<close>

definition interfere :: "tick \<Rightarrow> recorder \<Rightarrow> recorder" where
  "interfere t r = (if stop_called t then r\<lparr>is_recording := False\<rparr> else r)"

definition duration_reached :: "real option \<Rightarrow> real \<Rightarrow> bool" where
  "duration_reached duration_seconds elapsed =
     (case duration_seconds of
        None \<Rightarrow> False
      | Some d \<Rightarrow> d \<noteq> 0 \<and> elapsed \<ge> d)"

fun pyaudio_loop ::
  "real option \<Rightarrow> real \<Rightarrow> tick list \<Rightarrow> recorder \<Rightarrow> wave_write \<Rightarrow> (recorder \<times> wave_write) run" where
  "pyaudio_loop d start_time [] r wr = Unfinished (r, wr)"
| "pyaudio_loop d start_time (t # ts) r wr =
     (let r1 = interfere t r in
      if \<not> is_recording r1 then Finished (r1, wr)
      else if duration_reached d (clock t - start_time) then Finished (r1, wr)
      else (case rd t of
              ReadError \<Rightarrow> Finished (r1, wr)
            | Frames data \<Rightarrow> pyaudio_loop d start_time ts r1 (writeframes wr data)))"

definition record_with_pyaudio ::
  "env \<Rightarrow> string \<Rightarrow> real option \<Rightarrow> recorder \<times> world \<Rightarrow> (recorder \<times> world) run" where
  "record_with_pyaudio e filepath duration_seconds rw =
     (case rw of (r, w) \<Rightarrow>
        if \<not> stream_opens e then Finished (r\<lparr>is_recording := False\<rparr>, w)
        else if \<not> file_opens e then Finished (r\<lparr>is_recording := False\<rparr>, w)
        else (case pyaudio_loop duration_seconds (start_clock e) (ticks e) r
                     (wave_open channels sample_size sample_rate) of
                Unfinished (r', wr) \<Rightarrow>
                  Unfinished (r', w\<lparr>files := (files w)(filepath \<mapsto> on_disk wr)\<rparr>)
              | Finished (r', wr) \<Rightarrow>
                  Finished (r'\<lparr>is_recording := False\<rparr>,
                            w\<lparr>files := (files w)(filepath \<mapsto> WavFile (wave_close wr))\<rparr>)))"

text \<open>
  The loop of the \<^verbatim>\<open>sounddevice\<close> and of the \<^verbatim>\<open>plyer\<close> worker: the same test of the
  flag and of the duration, then \<^verbatim>\<open>time.sleep(0.1)\<close>.
\<close>

fun wait_loop :: "real option \<Rightarrow> real \<Rightarrow> tick list \<Rightarrow> recorder \<Rightarrow> recorder run" where
  "wait_loop d start_time [] r = Unfinished r"
| "wait_loop d start_time (t # ts) r =
     (let r1 = interfere t r in
      if \<not> is_recording r1 then Finished r1
      else if duration_reached d (clock t - start_time) then Finished r1
      else wait_loop d start_time ts r1)"

text \<open>A slice \<^verbatim>\<open>xs[:n]\<close>.\<close>

definition py_slice_to :: "int \<Rightarrow> 'a list \<Rightarrow> 'a list" where
  "py_slice_to n xs = (if 0 \<le> n then take (nat n) xs else take (length xs - nat (- n)) xs)"

text \<open>
  \<^verbatim>\<open>soundfile.write(filepath, data, samplerate)\<close> for one column of 16-bit samples: the
  container follows the extension of the path, WAV with 16-bit samples for
  \<^verbatim>\<open>.wav\<close>; an extension that names no container raises.
\<close>

definition to_upper :: "char \<Rightarrow> char" where
  "to_upper c =
     (if of_char c \<ge> (97::nat) \<and> of_char c \<le> (122::nat) then char_of (of_char c - (32::nat))
      else c)"

definition extension :: "string \<Rightarrow> string" where
  "extension path =
     (let base = rev (takeWhile (\<lambda>c. c \<noteq> CHR ''/'') (rev path));
          stem = dropWhile (\<lambda>c. c = CHR ''.'') base
      in if CHR ''.'' \<in> set stem
         then map to_upper (rev (takeWhile (\<lambda>c. c \<noteq> CHR ''.'') (rev stem)))
         else [])"

definition sf_write :: "env \<Rightarrow> string \<Rightarrow> 16 word list \<Rightarrow> nat \<Rightarrow> disk_file option" where
  "sf_write e filepath samples rate =
     (if extension filepath = ''WAV''
      then (if file_opens e
            then Some (WavFile \<lparr>nchannels = 1, sampwidth = 2, framerate = rate,
                                header_datalen = 2 * length samples,
                                frames_data = concat (map le16 samples)\<rparr>)
            else None)
      else if extension filepath \<in> set (sf_formats e) \<and> file_opens e
           then Some (SoundFile (extension filepath))
           else None)"

definition record_with_sounddevice ::
  "env \<Rightarrow> string \<Rightarrow> real option \<Rightarrow> recorder \<times> world \<Rightarrow> (recorder \<times> world) run" where
  "record_with_sounddevice e filepath duration_seconds rw =
     (case rw of (r, w) \<Rightarrow>
        let frames = (case duration_seconds of
                        None \<Rightarrow> int (sample_rate * 300)
                      | Some d \<Rightarrow> if d \<noteq> 0 then py_trunc (d * real sample_rate)
                                  else int (sample_rate * 300))
        in if frames < 0 \<or> \<not> stream_opens e then Finished (r\<lparr>is_recording := False\<rparr>, w)
           else (case wait_loop duration_seconds (start_clock e) (ticks e) r of
                   Unfinished r' \<Rightarrow> Unfinished (r', w)
                 | Finished r' \<Rightarrow>
                     let recording = map (mic e) [0..<nat frames];
                         n = py_trunc ((end_clock e - start_clock e) * real sample_rate)
                     in (case sf_write e filepath (py_slice_to n recording) sample_rate of
                           None \<Rightarrow> Finished (r'\<lparr>is_recording := False\<rparr>, w)
                         | Some f \<Rightarrow>
                             Finished (r'\<lparr>is_recording := False\<rparr>,
                                       w\<lparr>files := (files w)(filepath \<mapsto> f)\<rparr>))))"

text \<open>
  The fallback tone: \<^verbatim>\<open>int(32767 * math.sin(2 * math.pi * 440 * i / sample_rate))\<close>, with
  the sine of the real numbers in place of the floating-point one.
\<close>

definition tone_sample :: "nat \<Rightarrow> int" where
  "tone_sample i = py_trunc (32767 * sin (2 * pi * 440 * real i / real sample_rate))"

text \<open>
  The \<^verbatim>\<open>for\<close> loop of \<^verbatim>\<open>_create_dummy_recording\<close>; it stops at the first sample that
  \<^verbatim>\<open>struct.pack\<close> refuses.
\<close>

fun write_tone :: "nat list \<Rightarrow> wave_write \<Rightarrow> wave_write \<times> py_error option" where
  "write_tone [] wr = (wr, None)"
| "write_tone (i # rest) wr =
     (case pack_h (tone_sample i) of
        Inl err \<Rightarrow> (wr, Some err)
      | Inr bytes \<Rightarrow> write_tone rest (writeframes wr bytes))"

definition create_dummy_recording :: "env \<Rightarrow> string \<Rightarrow> recorder \<times> world \<Rightarrow> recorder \<times> world" where
  "create_dummy_recording e filepath rw =
     (case rw of (r, w) \<Rightarrow>
        if \<not> file_opens e then (r\<lparr>is_recording := False\<rparr>, w)
        else let frames = nat (py_trunc (1.0 * real sample_rate));
                 wr = fst (write_tone [0..<frames] (wave_open 1 2 sample_rate))
             in (r\<lparr>is_recording := False\<rparr>,
                 w\<lparr>files := (files w)(filepath \<mapsto> WavFile (wave_close wr))\<rparr>))"

text \<open>
  The \<^verbatim>\<open>plyer\<close> worker. The bridge captures into the file its \<^verbatim>\<open>file_path\<close> names
  while it records; the worker assigns \<^verbatim>\<open>audio.file_path = filepath\<close> after
  \<^verbatim>\<open>audio.stop()\<close>. An exception of the bridge leads to the fallback tone.
\<close>

definition record_with_plyer ::
  "env \<Rightarrow> string \<Rightarrow> real option \<Rightarrow> recorder \<times> world \<Rightarrow> (recorder \<times> world) run" where
  "record_with_plyer e filepath duration_seconds rw =
     (case rw of (r, w) \<Rightarrow>
        if \<not> bridge_starts e
        then (case create_dummy_recording e filepath (r, w) of
                (r', w') \<Rightarrow> Finished (r'\<lparr>is_recording := False\<rparr>, w'))
        else (case wait_loop duration_seconds (start_clock e) (ticks e) r of
                Unfinished r' \<Rightarrow> Unfinished (r', w)
              | Finished r' \<Rightarrow>
                  if \<not> bridge_stops e
                  then (case create_dummy_recording e filepath (r', w) of
                          (r'', w') \<Rightarrow> Finished (r''\<lparr>is_recording := False\<rparr>, w'))
                  else Finished
                         (r'\<lparr>is_recording := False\<rparr>,
                          w\<lparr>files := (files w)(bridge_path w \<mapsto> BridgeCapture),
                            bridge_path := filepath\<rparr>)))"

definition record_worker ::
  "audio_lib option \<Rightarrow> env \<Rightarrow> string \<Rightarrow> real option \<Rightarrow> recorder \<times> world \<Rightarrow>
   (recorder \<times> world) run" where
  "record_worker lib e filepath duration_seconds rw =
     (case lib of
        Some PyAudio \<Rightarrow> record_with_pyaudio e filepath duration_seconds rw
      | Some SoundDevice \<Rightarrow> record_with_sounddevice e filepath duration_seconds rw
      | Some Plyer \<Rightarrow> record_with_plyer e filepath duration_seconds rw
      | None \<Rightarrow> Finished (create_dummy_recording e filepath rw))"


subsection \<open>The background service (\<^verbatim>\<open>RecordingService\<close>)\<close>

text \<open>
  The service object: the flag, the thread handle (by the thread's arguments), whether
  it holds an open input stream, the open writer with its path, the wake lock (\<open>None\<close>
  when there is none, else whether it is held), and the notification shown (title and
  message).
\<close>

record service =
  svc_is_recording :: bool
  svc_recording_thread :: "(string \<times> real) option"
  svc_audio_stream :: bool
  svc_wave_file :: "(string \<times> wave_write) option"
  svc_wake_lock :: "bool option"
  svc_notification :: "(string \<times> string) option"

text \<open>
  The service after \<^verbatim>\<open>__init__\<close>: on Android, with a working bridge, it has created
  its wake lock, which is not yet held.
\<close>

definition new_service :: "host \<Rightarrow> service" where
  "new_service h =
     \<lparr>svc_is_recording = False, svc_recording_thread = None, svc_audio_stream = False,
      svc_wave_file = None,
      svc_wake_lock = (if on_android h \<and> bridge_error h = None then Some False else None),
      svc_notification = None\<rparr>"

text \<open>
  What \<^verbatim>\<open>start_recording\<close> of the service reads from outside: the clock rendered by
  \<^verbatim>\<open>strftime("%Y%m%d_%H%M%S")\<close>, and the recordings directory (\<open>None\<close> when
  \<^verbatim>\<open>get_recordings_directory\<close> raises).
\<close>

record svc_inputs =
  time_text :: string
  recordings_dir :: "string option"

definition path_join :: "string \<Rightarrow> string \<Rightarrow> string" where
  "path_join dir name =
     (if dir = [] then name
      else if last dir = CHR ''/'' then dir @ name
      else dir @ ''/'' @ name)"

definition basename :: "string \<Rightarrow> string" where
  "basename path = rev (takeWhile (\<lambda>c. c \<noteq> CHR ''/'') (rev path))"

definition show_notification :: "host \<Rightarrow> string \<Rightarrow> string \<Rightarrow> service \<Rightarrow> service" where
  "show_notification h title message s =
     (if \<not> on_android h then s
      else (case bridge_error h of
              Some e \<Rightarrow> s
            | None \<Rightarrow> s\<lparr>svc_notification := Some (title, message)\<rparr>))"

definition hide_notification :: "host \<Rightarrow> service \<Rightarrow> service" where
  "hide_notification h s =
     (if \<not> on_android h then s
      else (case bridge_error h of
              Some e \<Rightarrow> s
            | None \<Rightarrow> s\<lparr>svc_notification := None\<rparr>))"

text \<open>
  \<^verbatim>\<open>stop_recording\<close> of the service. Closing the writer it still holds finalizes that
  file. A failing bridge call while releasing the wake lock is caught and leaves the lock.
\<close>

definition svc_stop_recording :: "host \<Rightarrow> service \<times> world \<Rightarrow> service \<times> world" where
  "svc_stop_recording h sw =
     (case sw of (s, w) \<Rightarrow>
        if \<not> svc_is_recording s then (s, w)
        else
          let s1 = s\<lparr>svc_is_recording := False, svc_audio_stream := False\<rparr>;
              w1 = (case svc_wave_file s1 of
                      None \<Rightarrow> w
                    | Some (path, wr) \<Rightarrow>
                        w\<lparr>files := (files w)(path \<mapsto> WavFile (wave_close wr))\<rparr>);
              s2 = hide_notification h (s1\<lparr>svc_wave_file := None\<rparr>);
              s3 = (if svc_wake_lock s2 = Some True \<and> bridge_error h = None
                    then s2\<lparr>svc_wake_lock := Some False\<rparr> else s2)
          in (s3, w1))"

definition svc_start_recording ::
  "host \<Rightarrow> svc_inputs \<Rightarrow> int \<Rightarrow> service \<times> world \<Rightarrow> service \<times> world" where
  "svc_start_recording h i duration_minutes sw =
     (case sw of (s, w) \<Rightarrow>
        if svc_is_recording s then (s, w)
        else if svc_wake_lock s \<noteq> None \<and> bridge_error h \<noteq> None
        then svc_stop_recording h (s, w)
        else
          let s1 = (case svc_wake_lock s of
                      None \<Rightarrow> s
                    | Some held \<Rightarrow> s\<lparr>svc_wake_lock := Some True\<rparr>)
          in (case recordings_dir i of
                None \<Rightarrow> svc_stop_recording h (s1, w)
              | Some dir \<Rightarrow>
                  let filepath = path_join dir (''recording_'' @ time_text i @ ''.wav'');
                      s2 = show_notification h ''Voice Recorder''
                             (''Recording for '' @ py_str duration_minutes @ '' minutes...'') s1;
                      duration_seconds = real_of_int (duration_minutes * 60)
                  in (s2\<lparr>svc_is_recording := True,
                         svc_recording_thread := Some (filepath, duration_seconds)\<rparr>,
                      w\<lparr>spawned := spawned w @ [(filepath, Some duration_seconds)]\<rparr>)))"

definition svc_interfere :: "tick \<Rightarrow> service \<Rightarrow> service" where
  "svc_interfere t s = (if stop_called t then s\<lparr>svc_is_recording := False\<rparr> else s)"

fun service_loop ::
  "real \<Rightarrow> real \<Rightarrow> tick list \<Rightarrow> service \<Rightarrow> wave_write \<Rightarrow> (service \<times> wave_write) run" where
  "service_loop d start_time [] s wr = Unfinished (s, wr)"
| "service_loop d start_time (t # ts) s wr =
     (let s1 = svc_interfere t s in
      if \<not> (svc_is_recording s1 \<and> clock t - start_time < d) then Finished (s1, wr)
      else (case rd t of
              ReadError \<Rightarrow> Finished (s1, wr)
            | Frames data \<Rightarrow> service_loop d start_time ts s1 (writeframes wr data)))"

text \<open>
  \<^verbatim>\<open>_record_audio\<close>, the service's worker; \<open>pyaudio_present\<close> says whether the
  module \<^verbatim>\<open>pyaudio\<close> was imported. The rate, the channels and the chunk of the service
  have the values of the recorder's. The timer that hides the last notification five
  seconds later is not represented.
\<close>

definition record_audio ::
  "bool \<Rightarrow> host \<Rightarrow> env \<Rightarrow> string \<Rightarrow> real \<Rightarrow> service \<times> world \<Rightarrow> (service \<times> world) run" where
  "record_audio pyaudio_present h e filepath duration_seconds sw =
     (case sw of (s, w) \<Rightarrow>
        if \<not> pyaudio_present then Finished (s, w)
        else if \<not> stream_opens e then Finished (s\<lparr>svc_is_recording := False\<rparr>, w)
        else
          let s1 = s\<lparr>svc_audio_stream := True\<rparr>
          in if \<not> file_opens e then Finished (s1\<lparr>svc_is_recording := False\<rparr>, w)
             else (case service_loop duration_seconds (start_clock e) (ticks e) s1
                          (wave_open channels sample_size sample_rate) of
                     Unfinished (s2, wr) \<Rightarrow>
                       Unfinished (s2\<lparr>svc_wave_file := Some (filepath, wr)\<rparr>,
                                   w\<lparr>files := (files w)(filepath \<mapsto> on_disk wr)\<rparr>)
                   | Finished (s2, wr) \<Rightarrow>
                       let w1 = w\<lparr>files := (files w)(filepath \<mapsto> WavFile (wave_close wr))\<rparr>;
                           s3 = s2\<lparr>svc_wave_file := None, svc_audio_stream := False\<rparr>;
                           s4 = (if svc_is_recording s3
                                 then show_notification h ''Voice Recorder''
                                        (''Recording saved: '' @ basename filepath) s3
                                 else s3)
                       in Finished (s4\<lparr>svc_is_recording := False\<rparr>, w1)))"

subsection \<open>A backend that delivers in real time\<close>

text \<open>
  The time one chunk of audio lasts, and the passes of a loop whose every read blocks
  for exactly that time and delivers one full chunk, with no stop from the other thread:
  the pass number \<open>k\<close> tests the clock at \<open>start + k * chunk_interval\<close>.
\<close>

definition chunk_interval :: real where
  "chunk_interval = real chunk_size / real sample_rate"


text \<open>The bytes a pass delivers (none when the read fails).\<close>

definition chunk_of :: "tick \<Rightarrow> byte list" where
  "chunk_of t = (case rd t of Frames data \<Rightarrow> data | ReadError \<Rightarrow> [])"

subsection \<open>Example inputs\<close>

text \<open>
  A world with no files and no threads, the bridge set to the path \<^verbatim>\<open>plyer\<close> starts
  with on Android; a chunk of silence; the pass number \<open>k\<close> of a backend that delivers
  silence in real time; and the inputs of a run with \<open>n\<close> such passes, in which every
  call of the outside succeeds.
\<close>

definition initial_world :: world where
  "initial_world =
     \<lparr>files = Map.empty, spawned = [], bridge_path = ''/sdcard/testrecorder.3gp''\<rparr>"

definition silent_chunk :: "byte list" where
  "silent_chunk = replicate (chunk_size * sample_size) 0"

definition steady_tick :: "nat \<Rightarrow> tick" where
  "steady_tick k =
     \<lparr>stop_called = False, clock = real k * chunk_interval, rd = Frames silent_chunk\<rparr>"

definition steady_env :: "nat \<Rightarrow> env" where
  "steady_env n =
     \<lparr>stream_opens = True, file_opens = True, start_clock = 0,
      ticks = map steady_tick [0..<n], end_clock = real n * chunk_interval,
      mic = (\<lambda>i. 0), bridge_starts = True, bridge_stops = True, sf_formats = []\<rparr>"

definition desktop :: host where
  "desktop = \<lparr>on_android = False, bridge_error = None\<rparr>"

text \<open>
  The form as \<^verbatim>\<open>build\<close> leaves it when nothing is stored, and what the service
  reads at one start.
\<close>

definition new_app :: app where
  "new_app =
     \<lparr>store = None, hour_spinner_text = ''12'', minute_spinner_text = ''00'',
      duration_input_text = ''5'', status_label_text = ''No recording scheduled'',
      schedule_btn_text = ''Schedule Recording'', alarm = None\<rparr>"

definition noon_inputs :: svc_inputs where
  "noon_inputs =
     \<lparr>time_text = ''20240101_120000'', recordings_dir = Some ''/home/u/VoiceRecordings''\<rparr>"

section \<open>Verified properties\<close>

subsection \<open>Dates and the schedule\<close>







text \<open>The form stores the timestamp of that time.\<close>

lemma schedule_recording_stores_next_occurrence:
  assumes "py_int (hour_spinner_text a) = Some hr" and "py_int (minute_spinner_text a) = Some mn"
    and "py_int (duration_input_text a) = Some duration" and "0 < duration"
    and "next_occurrence now hr mn = Inr t"
  shows "store (schedule_recording h now a) =
           Some \<lparr>s_hour = Some hr, s_minute = Some mn, s_duration = Some duration,
                 s_scheduled_timestamp = Some (timestamp t), s_is_scheduled = Some True\<rparr>"
  using assms
  by (simp add: schedule_recording_def Let_def schedule_android_alarm_def split: option.splits)



text \<open>
  Claim C10. \<^verbatim>\<open>cancel_recording\<close> replaces the stored entry by one that holds only
  \<open>is_scheduled = False\<close>: hour, minute and duration are no longer in the store, and a
  following \<^verbatim>\<open>load_settings\<close> restores none of them (it changes nothing).
\<close>

theorem cancel_recording_drops_fields:
  "store (cancel_recording h a) =
     Some \<lparr>s_hour = None, s_minute = None, s_duration = None,
           s_scheduled_timestamp = None, s_is_scheduled = Some False\<rparr> \<and>
   load_settings (cancel_recording h a) = cancel_recording h a \<and>
   hour_spinner_text (load_settings (cancel_recording h a)) = hour_spinner_text a \<and>
   minute_spinner_text (load_settings (cancel_recording h a)) = minute_spinner_text a \<and>
   duration_input_text (load_settings (cancel_recording h a)) = duration_input_text a"
  by (auto simp: cancel_recording_def load_settings_def cancel_android_alarm_def Let_def split: option.splits)

theorem cancel_recording_drops_fields_witness:
  "store (new_app\<lparr>store := Some \<lparr>s_hour = Some 7, s_minute = Some 30, s_duration = Some 9,
            s_scheduled_timestamp = Some 0, s_is_scheduled = Some True\<rparr>\<rparr>) \<noteq> None \<and>
   store (cancel_recording desktop
           (new_app\<lparr>store := Some \<lparr>s_hour = Some 7, s_minute = Some 30, s_duration = Some 9,
              s_scheduled_timestamp = Some 0, s_is_scheduled = Some True\<rparr>\<rparr>)) =
     Some \<lparr>s_hour = None, s_minute = None, s_duration = None,
           s_scheduled_timestamp = None, s_is_scheduled = Some False\<rparr> \<and>
   hour_spinner_text (load_settings (cancel_recording desktop
           (new_app\<lparr>store := Some \<lparr>s_hour = Some 7, s_minute = Some 30, s_duration = Some 9,
              s_scheduled_timestamp = Some 0, s_is_scheduled = Some True\<rparr>\<rparr>))) = ''12''"
proof -
  let ?a = "new_app\<lparr>store := Some \<lparr>s_hour = Some 7, s_minute = Some 30, s_duration = Some 9,
              s_scheduled_timestamp = Some 0, s_is_scheduled = Some True\<rparr>\<rparr>"
  from cancel_recording_drops_fields [of desktop ?a]
  have "store (cancel_recording desktop ?a) =
          Some \<lparr>s_hour = None, s_minute = None, s_duration = None,
                s_scheduled_timestamp = None, s_is_scheduled = Some False\<rparr>"
    and "hour_spinner_text (load_settings (cancel_recording desktop ?a)) = hour_spinner_text ?a"
    by blast+
  moreover have "hour_spinner_text ?a = ''12''" by (simp add: new_app_def)
  moreover have "store ?a \<noteq> None" by simp
  ultimately show ?thesis by simp
qed

subsection \<open>Starting a recording\<close>

text \<open>
  Claim C1. While the flag is set, \<^verbatim>\<open>start_recording\<close> of the recorder returns
  \<open>False\<close> and changes nothing: the flag, the thread handle, the buffered data and the
  list of started workers stay as they were. While the flag is clear it returns \<open>True\<close>,
  sets the flag and starts exactly one worker, so that a second start right after it is
  refused and two starts in a row start one worker. The service's \<^verbatim>\<open>start_recording\<close>
  (which returns no value) changes nothing either while its flag is set, and a start that
  meets no failure sets the flag and starts exactly one worker.
\<close>

theorem start_recording_once:
  "(is_recording r \<longrightarrow> start_recording filepath d (r, w) = (False, r, w)) \<and>
   (\<not> is_recording r \<longrightarrow>
      (\<exists>r'. start_recording filepath d (r, w) =
              (True, r', w\<lparr>spawned := spawned w @ [(filepath, d)]\<rparr>) \<and>
            is_recording r' \<and>
            start_recording filepath' d' (r', w\<lparr>spawned := spawned w @ [(filepath, d)]\<rparr>) =
              (False, r', w\<lparr>spawned := spawned w @ [(filepath, d)]\<rparr>))) \<and>
   (svc_is_recording s \<longrightarrow> svc_start_recording h i minutes (s, w) = (s, w)) \<and>
   (\<not> svc_is_recording s \<and> recordings_dir i = Some dir \<and>
      (svc_wake_lock s = None \<or> bridge_error h = None) \<longrightarrow>
      (\<exists>s' job. svc_start_recording h i minutes (s, w) =
                  (s', w\<lparr>spawned := spawned w @ [job]\<rparr>) \<and>
                svc_is_recording s' \<and>
                svc_start_recording h i' minutes' (s', w\<lparr>spawned := spawned w @ [job]\<rparr>) =
                  (s', w\<lparr>spawned := spawned w @ [job]\<rparr>)))"
  by (auto simp: start_recording_def svc_start_recording_def Let_def show_notification_def
           split: option.splits)

theorem start_recording_once_witness:
  "\<not> is_recording new_recorder \<and>
   fst (start_recording ''a.wav'' (Some 3) (new_recorder, initial_world)) \<and>
   spawned (snd (snd (start_recording ''a.wav'' (Some 3) (new_recorder, initial_world)))) =
     [(''a.wav'', Some 3)] \<and>
   start_recording ''b.wav'' None
       (snd (start_recording ''a.wav'' (Some 3) (new_recorder, initial_world))) =
     (False, snd (start_recording ''a.wav'' (Some 3) (new_recorder, initial_world))) \<and>
   svc_is_recording ((new_service desktop)\<lparr>svc_is_recording := True\<rparr>) \<and>
   svc_start_recording desktop noon_inputs 5
       ((new_service desktop)\<lparr>svc_is_recording := True\<rparr>, initial_world) =
     ((new_service desktop)\<lparr>svc_is_recording := True\<rparr>, initial_world) \<and>
   svc_is_recording
     (fst (svc_start_recording desktop noon_inputs 5 (new_service desktop, initial_world)))"
proof -
  have a: "\<not> is_recording new_recorder" by (simp add: new_recorder_def)
  have b: "svc_is_recording ((new_service desktop)\<lparr>svc_is_recording := True\<rparr>)" by simp
  have c: "\<not> svc_is_recording (new_service desktop) \<and>
           recordings_dir noon_inputs = Some ''/home/u/VoiceRecordings'' \<and>
           (svc_wake_lock (new_service desktop) = None \<or> bridge_error desktop = None)"
    by (simp add: new_service_def noon_inputs_def desktop_def)
  from start_recording_once
    [where r = new_recorder and filepath = "''a.wav''" and d = "Some 3" and w = initial_world
       and filepath' = "''b.wav''" and d' = None
       and s = "(new_service desktop)\<lparr>svc_is_recording := True\<rparr>" and h = desktop
       and i = noon_inputs and minutes = 5] a b
  have d: "\<exists>r'. start_recording ''a.wav'' (Some 3) (new_recorder, initial_world) =
              (True, r', initial_world\<lparr>spawned := spawned initial_world @ [(''a.wav'', Some 3)]\<rparr>) \<and>
            is_recording r' \<and>
            start_recording ''b.wav'' None
                (r', initial_world\<lparr>spawned := spawned initial_world @ [(''a.wav'', Some 3)]\<rparr>) =
              (False, r', initial_world\<lparr>spawned := spawned initial_world @ [(''a.wav'', Some 3)]\<rparr>)"
    and e: "svc_start_recording desktop noon_inputs 5
       ((new_service desktop)\<lparr>svc_is_recording := True\<rparr>, initial_world) =
     ((new_service desktop)\<lparr>svc_is_recording := True\<rparr>, initial_world)"
    by blast+
  from start_recording_once
    [where s = "new_service desktop" and h = desktop and i = noon_inputs and minutes = 5
       and dir = "''/home/u/VoiceRecordings''" and w = initial_world] c
  have f: "svc_is_recording
     (fst (svc_start_recording desktop noon_inputs 5 (new_service desktop, initial_world)))"
    by fastforce
  from d have g: "fst (start_recording ''a.wav'' (Some 3) (new_recorder, initial_world)) \<and>
   spawned (snd (snd (start_recording ''a.wav'' (Some 3) (new_recorder, initial_world)))) =
     [(''a.wav'', Some 3)] \<and>
   start_recording ''b.wav'' None
       (snd (start_recording ''a.wav'' (Some 3) (new_recorder, initial_world))) =
     (False, snd (start_recording ''a.wav'' (Some 3) (new_recorder, initial_world)))"
    by (auto simp: initial_world_def)
  from a b e f g show ?thesis by blast
qed

subsection \<open>The writer and the fallback tone\<close>


lemma writeframes_datalength: "w_datalength (writeframes wr bs) = length (w_data wr) + length bs"
  by (simp add: writeframes_def Let_def patchheader_def ensure_header_written_def)

lemma writeframes_format:
  "w_nchannels (writeframes wr bs) = w_nchannels wr"
  "w_sampwidth (writeframes wr bs) = w_sampwidth wr"
  "w_framerate (writeframes wr bs) = w_framerate wr"
  by (simp_all add: writeframes_def Let_def patchheader_def ensure_header_written_def)



lemma wave_close_image:
  "nchannels (wave_close wr) = w_nchannels wr"
  "sampwidth (wave_close wr) = w_sampwidth wr"
  "framerate (wave_close wr) = w_framerate wr"
  "frames_data (wave_close wr) = w_data wr"
  "header_datalen (wave_close wr) = length (w_data wr)"
  by (simp_all add: wave_close_def image_def patchheader_def ensure_header_written_def)

lemma wave_close_finalized: "header_finalized (wave_close wr)"
  by (simp add: header_finalized_def wave_close_image)

lemma wave_open_fields:
  "w_nchannels (wave_open c s r) = c" "w_sampwidth (wave_open c s r) = s"
  "w_framerate (wave_open c s r) = r" "w_data (wave_open c s r) = []"
  by (simp_all add: wave_open_def)





lemma length_concat_le16: "length (concat (map (\<lambda>i. le16 (f i)) ns)) = 2 * length ns"
  by (induction ns) (simp_all add: le16_def)




subsection \<open>The loops of the workers\<close>
















lemma pyaudio_loop_format:
  assumes "pyaudio_loop d st ts r wr = Finished (r', wr')"
  shows "w_nchannels wr' = w_nchannels wr \<and> w_sampwidth wr' = w_sampwidth wr \<and>
         w_framerate wr' = w_framerate wr"
  using assms
  by (induction ts arbitrary: r wr)
     (auto simp: Let_def writeframes_format split: if_splits read_result.splits)

lemma service_loop_format:
  assumes "service_loop d st ts s wr = Finished (s', wr')"
  shows "w_nchannels wr' = w_nchannels wr \<and> w_sampwidth wr' = w_sampwidth wr \<and>
         w_framerate wr' = w_framerate wr"
  using assms
  by (induction ts arbitrary: s wr)
     (auto simp: Let_def writeframes_format split: if_splits read_result.splits)

lemma record_with_pyaudio_output:
  assumes "record_with_pyaudio e filepath d (r, w) = Finished (r', w')"
    and "stream_opens e" and "file_opens e"
  shows "\<exists>img. files w' filepath = Some (WavFile img) \<and> pcm16_mono sample_rate img \<and>
           header_finalized img"
proof -
  from assms obtain r1 wr where l: "pyaudio_loop d (start_clock e) (ticks e) r
        (wave_open channels sample_size sample_rate) = Finished (r1, wr)"
    and w': "w' = w\<lparr>files := (files w)(filepath \<mapsto> WavFile (wave_close wr))\<rparr>"
    by (auto simp: record_with_pyaudio_def split: run.splits prod.splits)
  from pyaudio_loop_format[OF l] have "pcm16_mono sample_rate (wave_close wr)"
    by (simp add: pcm16_mono_def wave_close_image wave_open_fields channels_def sample_size_def)
  then show ?thesis using w' by (simp add: wave_close_finalized)
qed

lemma record_with_sounddevice_output:
  assumes "record_with_sounddevice e filepath d (r, w) = Finished (r', w')"
    and "stream_opens e" and "file_opens e" and "extension filepath = ''WAV''"
    and "\<forall>x. d = Some x \<longrightarrow> 0 \<le> x"
  shows "\<exists>img. files w' filepath = Some (WavFile img) \<and> pcm16_mono sample_rate img \<and>
           header_finalized img"
proof -
  have nn: "\<not> py_trunc (x * real sample_rate) < 0" if "d = Some x" for x
    using that assms(5) by (simp add: py_trunc_def not_less)
  show ?thesis
    using assms(1-4)
    by (auto simp: record_with_sounddevice_def sf_write_def Let_def pcm16_mono_def
          header_finalized_def length_concat_le16 nn
          split: run.splits option.splits if_splits)
qed

lemma record_with_plyer_leaves_path:
  assumes "record_with_plyer e filepath d (r, w) = Finished (r', w')"
    and "bridge_starts e" and "bridge_stops e" and "filepath \<noteq> bridge_path w"
  shows "files w' filepath = files w filepath \<and> files w' (bridge_path w) = Some BridgeCapture \<and>
         bridge_path w' = filepath"
  using assms
  by (auto simp: record_with_plyer_def split: run.splits)

lemma wait_loop_duration:
  assumes "is_recording r" and "D \<noteq> 0" and "\<forall>t \<in> set ts. \<not> stop_called t"
    and "\<exists>t \<in> set ts. clock t - st \<ge> D"
  shows "wait_loop (Some D) st ts r = Finished r"
  using assms
  by (induction ts) (auto simp: Let_def interfere_def duration_reached_def)


lemma steady_env_fields:
  "stream_opens (steady_env n)" "file_opens (steady_env n)" "start_clock (steady_env n) = 0"
  "ticks (steady_env n) = map steady_tick [0..<n]" "bridge_starts (steady_env n)"
  "bridge_stops (steady_env n)"
  by (simp_all add: steady_env_def)

lemma steady_tick_fields:
  "\<not> stop_called (steady_tick k)" "rd (steady_tick k) = Frames silent_chunk"
  "clock (steady_tick k) = real k * chunk_interval" "chunk_of (steady_tick k) = silent_chunk"
  by (simp_all add: steady_tick_def chunk_of_def)

lemma create_dummy_recording_flag:
  "create_dummy_recording e filepath (r, w) = (r', w') \<Longrightarrow> \<not> is_recording r'"
  by (auto simp: create_dummy_recording_def Let_def split: if_splits)

lemma record_worker_clears_flag:
  assumes "record_worker lib e filepath d (r, w) = Finished (r', w')"
  shows "\<not> is_recording r'"
  using assms
  by (auto simp: record_worker_def record_with_pyaudio_def record_with_sounddevice_def
        record_with_plyer_def create_dummy_recording_def Let_def
        split: option.splits audio_lib.splits if_splits run.splits prod.splits)

lemma record_audio_clears_flag:
  assumes "record_audio True h e filepath d (s, w) = Finished (s', w')"
  shows "\<not> svc_is_recording s'"
  using assms
  by (auto simp: record_audio_def Let_def split: if_splits run.splits prod.splits)

lemma record_audio_without_pyaudio:
  "record_audio False h e filepath d (s, w) = Finished (s, w)"
  by (simp add: record_audio_def)

subsection \<open>Properties of the recordings\<close>








text \<open>
  Claim C4 fails on the service. When the module \<^verbatim>\<open>pyaudio\<close> could not be imported,
  the service's worker returns before its \<^verbatim>\<open>try\<close>: after a start on the desktop the
  flag is set, the worker ends and leaves the flag set, and the next start is refused.
  (Every worker of the recorder, and the service's worker when \<^verbatim>\<open>pyaudio\<close> is present,
  clears the flag when it ends: \<open>record_worker_clears_flag\<close>,
  \<open>record_audio_clears_flag\<close>.)
\<close>

theorem service_flag_stuck_without_pyaudio:
  "(case svc_start_recording desktop noon_inputs 5 (new_service desktop, initial_world) of
      (s1, w1) \<Rightarrow>
        svc_is_recording s1 \<and>
        spawned w1 = [(''/home/u/VoiceRecordings/recording_20240101_120000.wav'', Some 300)] \<and>
        record_audio False desktop (steady_env 3)
          ''/home/u/VoiceRecordings/recording_20240101_120000.wav'' 300 (s1, w1) =
          Finished (s1, w1) \<and>
        svc_start_recording desktop (noon_inputs\<lparr>time_text := ''20240102_120000''\<rparr>) 5 (s1, w1) =
          (s1, w1))"
  by (simp add: svc_start_recording_def new_service_def desktop_def noon_inputs_def
        initial_world_def show_notification_def path_join_def record_audio_without_pyaudio Let_def)

text \<open>
  Claim C7 fails on the \<^verbatim>\<open>plyer\<close> worker. It assigns the requested path to the bridge
  only after the bridge has stopped: a recording that succeeds leaves the bridge's capture
  at the path the bridge had before, and no file at the requested path. (The PyAudio and
  the \<^verbatim>\<open>sounddevice\<close> worker leave a mono 16-bit WAV file at the requested path:
  \<open>record_with_pyaudio_output\<close>, \<open>record_with_sounddevice_output\<close>.)
\<close>

theorem plyer_capture_misses_requested_path:
  "(case record_worker (Some Plyer) (steady_env 4) ''/rec/a.wav'' (Some (1 / 20))
          (new_recorder\<lparr>is_recording := True\<rparr>, initial_world) of
      Finished (r', w') \<Rightarrow>
        files w' ''/rec/a.wav'' = None \<and>
        files w' ''/sdcard/testrecorder.3gp'' = Some BridgeCapture \<and>
        bridge_path w' = ''/rec/a.wav'' \<and> \<not> is_recording r'
    | Unfinished x \<Rightarrow> False)"
proof -
  have up: "[0..<4] = [0, 1, 2, 3]" by (simp add: upt_conv_Cons)
  have "wait_loop (Some (1 / 20)) 0 (map steady_tick [0..<4]) (new_recorder\<lparr>is_recording := True\<rparr>) =
          Finished (new_recorder\<lparr>is_recording := True\<rparr>)"
    by (rule wait_loop_duration)
       (auto simp: up steady_tick_fields chunk_interval_def chunk_size_def sample_rate_def)
  then show ?thesis
    by (simp add: record_worker_def record_with_plyer_def steady_env_fields initial_world_def)
qed

end
